theory Spec2Isabelle
  imports
    Main
    "HOL-Library.AList"
    "HOL-Library.Char_ord"
    "HOL-Library.List_Lexorder"
    "HOL-Library.Product_Lexorder"
    "HOL-Library.Multiset"
begin

section \<open>Python values, dictionaries and exceptions\<close>

text \<open>
  The values a document field can hold. Floats are left out: no property below depends
  on them. A Python \<open>dict\<close> keeps its keys in insertion order and has no duplicate
  keys, so it is an association list whose keys are distinct (\<open>wf_dict\<close>).
\<close>

datatype pyval =
    PNone
  | PBool bool
  | PInt int
  | PStr string
  | PList "pyval list"
  | PDict "(string \<times> pyval) list"

type_synonym pydict = "(string \<times> pyval) list"

definition wf_dict :: "pydict \<Rightarrow> bool" where
  "wf_dict d = distinct (map fst d)"

text \<open>Truth value of an object, as \<open>if new_value:\<close> tests it.\<close>

fun truthy :: "pyval \<Rightarrow> bool" where
  "truthy PNone = False"
| "truthy (PBool b) = b"
| "truthy (PInt i) = (i \<noteq> 0)"
| "truthy (PStr s) = (s \<noteq> [])"
| "truthy (PList xs) = (xs \<noteq> [])"
| "truthy (PDict kvs) = (kvs \<noteq> [])"

text \<open>\<open>key in d\<close>, \<open>d.get(key)\<close> (\<open>None\<close> when the key is absent) and
  \<open>d.update(other)\<close>: an existing key keeps its place, a new one is appended.\<close>

definition has_key :: "pydict \<Rightarrow> string \<Rightarrow> bool" where
  "has_key d k = (k \<in> fst ` set d)"

definition dict_get :: "pydict \<Rightarrow> string \<Rightarrow> pyval" where
  "dict_get d k = (case map_of d k of None \<Rightarrow> PNone | Some v \<Rightarrow> v)"

definition dict_update :: "pydict \<Rightarrow> pydict \<Rightarrow> pydict" where
  "dict_update d other = fold (\<lambda>(k, v) acc. AList.update k v acc) other d"

text \<open>The exceptions that the modelled code raises or lets through.\<close>

datatype exn =
    ValueError
  | TypeError
  | KeyError
  | PlainException string
  | DocumentFolderNotFound string
  | OtherError string

text \<open>A list comprehension whose element expression may raise stops at the first
  exception.\<close>

fun collect :: "(exn + 'a) list \<Rightarrow> exn + 'a list" where
  "collect [] = Inr []"
| "collect (x # xs) =
     (case x of
        Inl e \<Rightarrow> Inl e
      | Inr v \<Rightarrow> (case collect xs of Inl e \<Rightarrow> Inl e | Inr vs \<Rightarrow> Inr (v # vs)))"

text \<open>\<open>sep.join(parts)\<close>.\<close>

fun str_join :: "string \<Rightarrow> string list \<Rightarrow> string" where
  "str_join sep [] = []"
| "str_join sep [x] = x"
| "str_join sep (x # y # zs) = x @ sep @ str_join sep (y # zs)"

text \<open>\<open>str.strip()\<close> on the ASCII range: the characters for which
  \<open>str.isspace\<close> holds there.\<close>

definition is_space :: "char \<Rightarrow> bool" where
  "is_space c = (of_char c \<in> {9, 10, 11, 12, 13, 28, 29, 30, 31, 32 :: nat})"

definition strip :: "string \<Rightarrow> string" where
  "strip s = rev (dropWhile is_space (rev (dropWhile is_space s)))"

text \<open>\<open>os.path.join(a, b)\<close> of \<open>posixpath\<close> for two strings.\<close>

definition path_join :: "string \<Rightarrow> string \<Rightarrow> string" where
  "path_join a b =
     (if (case b of [] \<Rightarrow> False | c # _ \<Rightarrow> c = CHR ''/'') then b
      else if a = [] \<or> last a = CHR ''/'' then a @ b
      else a @ ''/'' @ b)"

definition is_abs :: "string \<Rightarrow> bool" where
  "is_abs p = (case p of [] \<Rightarrow> False | c # _ \<Rightarrow> c = CHR ''/'')"

section \<open>The Document entity\<close>

text \<open>
  \<open>class Document(Dict[str, Any])\<close>: the dictionary itself (\<open>items\<close>, the
  \<open>fields\<close> of the specification) together with the attributes \<open>_folder\<close>,
  \<open>_info_file_path\<close> and \<open>subfolder\<close>.
\<close>

record document =
  folder :: "string option"
  info_file_path :: string
  subfolder :: string
  items :: pydict

definition has :: "document \<Rightarrow> string \<Rightarrow> bool" where
  "has doc k = has_key (items doc) k"

definition missing :: "document \<Rightarrow> string \<Rightarrow> pyval" where
  "missing doc k = PStr []"

text \<open>\<open>doc[key]\<close>: \<open>dict.__getitem__\<close> calls \<open>__missing__\<close> for an absent key.\<close>

definition getitem :: "document \<Rightarrow> string \<Rightarrow> pyval" where
  "getitem doc k = (case map_of (items doc) k of None \<Rightarrow> missing doc k | Some v \<Rightarrow> v)"

definition get_main_folder :: "document \<Rightarrow> string option" where
  "get_main_folder doc = folder doc"

definition get_info_file :: "document \<Rightarrow> string" where
  "get_info_file doc = info_file_path doc"

text \<open>\<open>os.path.join(folder, f)\<close> raises \<open>TypeError\<close> when \<open>f\<close> is not a
  string.\<close>

fun join_entry :: "string \<Rightarrow> pyval \<Rightarrow> exn + string" where
  "join_entry d (PStr s) = Inr (path_join d s)"
| "join_entry d v = Inl TypeError"

definition get_files :: "document \<Rightarrow> exn + string list" where
  "get_files doc =
     (case get_main_folder doc of
        None \<Rightarrow> Inr []
      | Some d \<Rightarrow>
          (let relative_files = dict_get (items doc) ''files'' in
           if relative_files = PNone then Inr []
           else
             (let files = (case relative_files of PList xs \<Rightarrow> xs | v \<Rightarrow> [v])
              in collect (map (join_entry d) files))))"

text \<open>
  \<open>dump\<close>. \<open>max\<close> of an empty sequence raises \<open>ValueError\<close>;
  \<open>"{:{}}".format(s, width)\<close> pads a string with spaces on the right and never cuts
  it. The rendering of a value by \<open>format(value, "")\<close>, which is \<open>str(value)\<close>, is
  a built-in of Python and is taken as the parameter \<open>py_str\<close>. \<open>sorted\<close> compares
  the \<open>(key, value)\<close> tuples; the keys of a dictionary are distinct, so the key
  decides.
\<close>

definition ljust :: "string \<Rightarrow> nat \<Rightarrow> string" where
  "ljust s w = s @ replicate (w - length s) CHR '' ''"

definition dump_width :: "pydict \<Rightarrow> nat" where
  "dump_width d = (fold max (map (\<lambda>(k, v). length k) d) 0 div 4 + 2) * 4 - 1"

definition dump_line :: "(pyval \<Rightarrow> string) \<Rightarrow> nat \<Rightarrow> string \<times> pyval \<Rightarrow> string" where
  "dump_line py_str width = (\<lambda>(k, v). ljust (k @ '':'') width @ py_str v)"

definition dump :: "(pyval \<Rightarrow> string) \<Rightarrow> document \<Rightarrow> exn + string" where
  "dump py_str doc =
     (if items doc = [] then Inl ValueError
      else Inr (str_join [CHR 0x0A]
                 (map (dump_line py_str (dump_width (items doc)))
                      (sort_key fst (items doc)))))"

text \<open>
  An instance of \<open>py_str\<close> for the examples: \<open>str\<close> of a string is the string,
  of an integer its decimal digits, of \<open>None\<close> and of a truth value its name. Python
  renders a list or a dictionary through \<open>repr\<close>, which is not modelled: this instance
  gives the empty string there, and no example below holds such a value.
\<close>

fun nat_digits :: "nat \<Rightarrow> string" where
  "nat_digits n =
     (if n < 10 then [char_of (48 + n)]
      else nat_digits (n div 10) @ [char_of (48 + n mod 10)])"

declare nat_digits.simps [simp del]

fun str_of_text :: "pyval \<Rightarrow> string" where
  "str_of_text (PStr s) = s"
| "str_of_text (PInt i) = (if i < 0 then ''-'' @ nat_digits (nat (- i)) else nat_digits (nat i))"
| "str_of_text PNone = ''None''"
| "str_of_text (PBool b) = (if b then ''True'' else ''False'')"
| "str_of_text v = []"

text \<open>The column width in the words of the specification: "the next multiple of 4 above
  the longest key length".\<close>

definition next_multiple_of_4_above :: "nat \<Rightarrow> nat" where
  "next_multiple_of_4_above n = (n div 4 + 1) * 4"

section \<open>Logging\<close>

text \<open>A call of \<open>logger.debug\<close>, \<open>logger.info\<close> or \<open>logger.error\<close> is recorded
  with its level, its message template, its arguments and the exception passed as
  \<open>exc_info\<close>. Logging never raises.\<close>

datatype log_level = DEBUG | INFO | WARNING | ERROR

datatype log_record = LogRecord log_level string "string list" "exn option"

section \<open>The key-conversion engine\<close>

text \<open>
  \<open>KeyConversion\<close> is a dictionary with the optional entries \<open>key\<close> and \<open>action\<close>.
  An action is a Python callable: it returns a value or raises an exception (a subclass of
  \<open>Exception\<close>), here \<open>Inl\<close>. \<open>KeyConversionPair\<close> is the named tuple
  \<open>(foreign_key, list)\<close>.
\<close>

datatype KeyConversion =
  KeyConversion (conv_key: "string option") (conv_action: "(pyval \<Rightarrow> exn + pyval) option")

datatype KeyConversionPair =
  KeyConversionPair (foreign_key: string) (conv_list: "KeyConversion list")

text \<open>Iterating over a value, as the comprehension over \<open>data["author_list"]\<close> does.\<close>

fun py_iter :: "pyval \<Rightarrow> exn + pyval list" where
  "py_iter (PList xs) = Inr xs"
| "py_iter (PStr s) = Inr (map (\<lambda>c. PStr [c]) s)"
| "py_iter (PDict kvs) = Inr (map (\<lambda>(k, v). PStr k) kvs)"
| "py_iter v = Inl TypeError"

text \<open>
  \<open>author_list_to_author\<close>. \<open>papis.config.getstring\<close> and \<open>fmt.format(au=author)\<close>
  are not part of the source files; they are the parameters \<open>getstring\<close> (which may
  raise, or return \<open>None\<close>) and \<open>str_format\<close> (which may raise).
\<close>

definition cannot_join_message :: string where
  "cannot_join_message =
     ''Cannot join the author list if the settings 'multiple-authors-separator' '' @
     ''and 'multiple-authors-format' are not present in the configuration''"

definition author_list_to_author ::
  "(string \<Rightarrow> exn + string option) \<Rightarrow> (string \<Rightarrow> pyval \<Rightarrow> exn + string) \<Rightarrow> pydict
     \<Rightarrow> exn + string" where
  "author_list_to_author getstring str_format data =
     (if \<not> has_key data ''author_list'' then Inr []
      else
        (case getstring ''multiple-authors-separator'' of
           Inl e \<Rightarrow> Inl e
         | Inr separator \<Rightarrow>
             (case getstring ''multiple-authors-format'' of
                Inl e \<Rightarrow> Inl e
              | Inr fmt \<Rightarrow>
                  (case (separator, fmt) of
                     (Some sep, Some f) \<Rightarrow>
                       (case py_iter (dict_get data ''author_list'') of
                          Inl e \<Rightarrow> Inl e
                        | Inr authors \<Rightarrow>
                            (case collect (map (str_format f) authors) of
                               Inl e \<Rightarrow> Inl e
                             | Inr parts \<Rightarrow> Inr (str_join sep parts)))
                   | _ \<Rightarrow> Inl (PlainException cannot_join_message)))))"

text \<open>The body of the inner loop of \<open>keyconversion_to_data\<close>: one conversion rule applied
  to the value \<open>data[foreign_key]\<close>, on the log and \<open>new_data\<close>.\<close>

definition papis_key_of :: "string \<Rightarrow> KeyConversion \<Rightarrow> string" where
  "papis_key_of fk c = (case conv_key c of None \<Rightarrow> fk | Some k \<Rightarrow> if k = [] then fk else k)"

definition apply_conversion ::
  "string \<Rightarrow> pyval \<Rightarrow> KeyConversion \<Rightarrow> log_record list \<times> pydict \<Rightarrow> log_record list \<times> pydict" where
  "apply_conversion fk papis_value c = (\<lambda>(log, new_data).
     (let papis_key = papis_key_of fk c;
          (log', new_value) =
            (case conv_action c of
               Some act \<Rightarrow>
                 (case act papis_value of
                    Inl exc \<Rightarrow>
                      (log @ [LogRecord DEBUG ''Error while trying to parse '%s' (%s).''
                                [papis_key] (Some exc)], PNone)
                  | Inr v \<Rightarrow> (log, v))
             | None \<Rightarrow> (log, papis_value));
          stripped = (case new_value of PStr s \<Rightarrow> PStr (strip s) | v \<Rightarrow> v)
      in (log', if truthy stripped then AList.update papis_key stripped new_data else new_data)))"

text \<open>The body of the outer loop: a pair whose foreign key is absent is skipped.\<close>

definition convert_pair ::
  "pydict \<Rightarrow> KeyConversionPair \<Rightarrow> log_record list \<times> pydict \<Rightarrow> log_record list \<times> pydict" where
  "convert_pair data pair st =
     (case map_of data (foreign_key pair) of
        None \<Rightarrow> st
      | Some v \<Rightarrow> fold (apply_conversion (foreign_key pair) v) (conv_list pair) st)"

definition copy_unknown :: "KeyConversionPair list \<Rightarrow> pydict \<Rightarrow> pydict \<Rightarrow> pydict" where
  "copy_unknown conversions data new_data =
     fold (\<lambda>(k, v) nd. if k \<in> set (map foreign_key conversions) then nd
                        else AList.update k v nd) data new_data"

text \<open>\<open>keyconversion_to_data\<close> returns the log records it emitted and either the new
  dictionary or the exception it raised.\<close>

definition keyconversion_to_data ::
  "(string \<Rightarrow> exn + string option) \<Rightarrow> (string \<Rightarrow> pyval \<Rightarrow> exn + string)
     \<Rightarrow> KeyConversionPair list \<Rightarrow> pydict \<Rightarrow> bool \<Rightarrow> log_record list \<times> (exn + pydict)" where
  "keyconversion_to_data getstring str_format conversions data keep_unknown_keys =
     (let (log, converted) = fold (convert_pair data) conversions ([], []);
          new_data = (if keep_unknown_keys then copy_unknown conversions data converted
                      else converted)
      in if has_key new_data ''author_list'' then
           (case author_list_to_author getstring str_format new_data of
              Inl e \<Rightarrow> (log, Inl e)
            | Inr a \<Rightarrow> (log, Inr (AList.update ''author'' (PStr a) new_data)))
         else (log, Inr new_data))"

text \<open>Instances of the parameters for the examples: a configuration with both settings
  present, a configuration with none, and a format that renders an author record
  \<open>{given, family}\<close> as \<open>family, given\<close>, as the template \<open>{au[family]}, {au[given]}\<close>
  does: each entry is rendered as \<open>str_of_text\<close> renders it, a missing entry raises
  \<open>KeyError\<close>, and an author that is no mapping raises \<open>TypeError\<close>.\<close>

definition getstring_default :: "string \<Rightarrow> exn + string option" where
  "getstring_default k =
     (if k = ''multiple-authors-separator'' then Inr (Some '' and '')
      else if k = ''multiple-authors-format'' then Inr (Some ''{au[family]}, {au[given]}'')
      else Inl (OtherError k))"

definition getstring_unset :: "string \<Rightarrow> exn + string option" where
  "getstring_unset k = Inr None"

fun format_family_given :: "string \<Rightarrow> pyval \<Rightarrow> exn + string" where
  "format_family_given f (PDict kvs) =
     (case (map_of kvs ''family'', map_of kvs ''given'') of
        (Some fam, Some giv) \<Rightarrow> Inr (str_of_text fam @ '', '' @ str_of_text giv)
      | _ \<Rightarrow> Inl KeyError)"
| "format_family_given f v = Inl TypeError"

text \<open>The author list of the doctest of \<open>author_list_to_author\<close>.\<close>

definition example_authors :: pyval where
  "example_authors =
     PList [PDict [(''given'', PStr ''Some''), (''family'', PStr ''Author'')],
            PDict [(''given'', PStr ''Other''), (''family'', PStr ''Author'')]]"

section \<open>Loading the info file\<close>

text \<open>
  \<open>Document.load\<close>. \<open>os.path.exists\<close> and \<open>papis.yaml.yaml_to_data\<close> are not
  part of the source files; they are the parameters \<open>path_exists\<close> and
  \<open>yaml_to_data\<close> (which returns a dictionary or raises). The result is the log
  records emitted and the document after the call.
\<close>

definition load ::
  "(string \<Rightarrow> bool) \<Rightarrow> (string \<Rightarrow> exn + pydict) \<Rightarrow> document \<Rightarrow> log_record list \<times> document" where
  "load path_exists yaml_to_data doc =
     (let info_file = get_info_file doc in
      if info_file = [] \<or> \<not> path_exists info_file then ([], doc)
      else
        (case yaml_to_data info_file of
           Inl exc \<Rightarrow>
             ([LogRecord ERROR ''Error reading info file at '%s'. Please check it!''
                 [get_info_file doc] (Some exc)], doc)
         | Inr data \<Rightarrow> ([], doc\<lparr>items := dict_update (items doc) data\<rparr>)))"

section \<open>The update pipeline\<close>

text \<open>
  \<open>run\<close> of \<open>papis.commands.update\<close>. The collaborators that are not part of the
  source files are parameters: \<open>describe\<close> (returns a string or raises),
  \<open>papis.commands.doctor.fix_errors\<close>, \<open>papis.api.save_doc\<close> and
  \<open>papis.git.add_and_commit_resource\<close>. The last three act on the document and on
  the world outside the program (file system, database, git), of type \<open>'w\<close>: they
  return the exception raised, if any, the document and the world after the call.
  \<open>run\<close> itself returns the exception it raised, if any, and the document and the
  world as it leaves them. The record of \<open>logger.info\<close> is not kept; the call of
  \<open>describe\<close> in its argument is.
\<close>

type_synonym 'w effect = "document \<Rightarrow> 'w \<Rightarrow> exn option \<times> document \<times> 'w"

definition raise_folder_not_found ::
  "(document \<Rightarrow> exn + string) \<Rightarrow> document \<Rightarrow> 'w \<Rightarrow> exn option \<times> document \<times> 'w" where
  "raise_folder_not_found describe doc w =
     (case describe doc of
        Inl e \<Rightarrow> (Some e, doc, w)
      | Inr m \<Rightarrow> (Some (DocumentFolderNotFound m), doc, w))"

definition run ::
  "(document \<Rightarrow> exn + string) \<Rightarrow> 'w effect \<Rightarrow> 'w effect
     \<Rightarrow> (string \<Rightarrow> string \<Rightarrow> string \<Rightarrow> 'w effect)
     \<Rightarrow> document \<Rightarrow> pydict option \<Rightarrow> bool \<Rightarrow> bool \<Rightarrow> 'w \<Rightarrow> exn option \<times> document \<times> 'w" where
  "run describe fix_errors save_doc add_and_commit_resource doc data git auto_doctor w =
     (let data' = (case data of None \<Rightarrow> [] | Some d \<Rightarrow> d);
          info = get_info_file doc
      in case get_main_folder doc of
           None \<Rightarrow> raise_folder_not_found describe doc w
         | Some fld \<Rightarrow>
             if fld = [] \<or> info = [] then raise_folder_not_found describe doc w
             else
               (let doc1 = doc\<lparr>items := dict_update (items doc) data'\<rparr>;
                    (r2, doc2, w2) =
                      (if auto_doctor then
                         (case describe doc1 of
                            Inl e \<Rightarrow> (Some e, doc1, w)
                          | Inr m \<Rightarrow> fix_errors doc1 w)
                       else (None, doc1, w))
                in case r2 of
                     Some e \<Rightarrow> (Some e, doc2, w2)
                   | None \<Rightarrow>
                       (let (r3, doc3, w3) = save_doc doc2 w2
                        in case r3 of
                             Some e \<Rightarrow> (Some e, doc3, w3)
                           | None \<Rightarrow>
                               if git then
                                 (case describe doc3 of
                                    Inl e \<Rightarrow> (Some e, doc3, w3)
                                  | Inr m \<Rightarrow>
                                      add_and_commit_resource fld info
                                        (''Update information for '' @ [CHR 0x27] @ m
                                           @ [CHR 0x27]) doc3 w3)
                               else (None, doc3, w3))))"

text \<open>
  The body of the loop of \<open>cli\<close> for one document. \<open>process_set_tuples\<close> and the
  importers are not part of the source files: the dictionary made from the \<open>--set\<close>
  options (\<open>set_data\<close>) and the data collected from the importers (\<open>imported\<close>) are
  parameters. \<open>ctx_data\<close> is \<open>ctx.data\<close> when it is handed to \<open>run\<close>.
\<close>

definition strip_ref :: "pydict \<Rightarrow> pydict" where
  "strip_ref imported =
     (if has_key imported ''ref'' then AList.delete ''ref'' imported else imported)"

definition ctx_data :: "document \<Rightarrow> pydict \<Rightarrow> pydict \<Rightarrow> pydict" where
  "ctx_data doc set_data imported =
     dict_update (dict_update (dict_update [] (items doc)) set_data) (strip_ref imported)"

definition cli_update ::
  "(document \<Rightarrow> exn + string) \<Rightarrow> 'w effect \<Rightarrow> 'w effect
     \<Rightarrow> (string \<Rightarrow> string \<Rightarrow> string \<Rightarrow> 'w effect)
     \<Rightarrow> document \<Rightarrow> pydict \<Rightarrow> pydict \<Rightarrow> bool \<Rightarrow> bool \<Rightarrow> 'w \<Rightarrow> exn option \<times> document \<times> 'w" where
  "cli_update describe fix_errors save_doc add_and_commit_resource doc set_data imported
       git auto_doctor w =
     run describe fix_errors save_doc add_and_commit_resource doc
       (Some (ctx_data doc set_data imported)) git auto_doctor w"

text \<open>Instances of the collaborators for the examples: the world is the list of records
  written so far, \<open>save_doc\<close> appends the document's fields under its info file, the
  description is the title, and the other two do nothing.\<close>

definition describe_title :: "document \<Rightarrow> exn + string" where
  "describe_title doc = (case getitem doc ''title'' of PStr s \<Rightarrow> Inr s | v \<Rightarrow> Inl TypeError)"

definition save_to_store :: "(string \<times> pydict) list effect" where
  "save_to_store doc w = (None, doc, w @ [(get_info_file doc, items doc)])"

definition no_effect :: "'w effect" where
  "no_effect doc w = (None, doc, w)"

definition unfoldered :: document where
  "unfoldered = \<lparr>folder = None, info_file_path = [], subfolder = [],
                 items = [(''title'', PStr ''T''), (''tags'', PStr ''a'')]\<rparr>"

definition foldered :: document where
  "foldered = \<lparr>folder = Some ''/lib/doc'', info_file_path = ''/lib/doc/info.yaml'',
               subfolder = '' lib doc'',
               items = [(''title'', PStr ''T''), (''tags'', PStr ''a''), (''ref'', PStr ''R'')]\<rparr>"

section \<open>Sorting documents\<close>

text \<open>\<open>_SortPriority\<close>, an \<open>IntEnum\<close>, with its values.\<close>

datatype SortPriority = SortDate | SortInt | SortOther | SortMissing

fun priority_value :: "SortPriority \<Rightarrow> int" where
  "priority_value SortDate = 0"
| "priority_value SortInt = 1"
| "priority_value SortOther = 2"
| "priority_value SortMissing = 3"

definition time_format :: string where
  "time_format = ''%Y-%m-%d-%H:%M:%S''"

text \<open>
  \<open>document_sort_key\<close>, the local function of \<open>sort\<close>. The built-ins \<open>str\<close>,
  \<open>int\<close> (\<open>None\<close> for \<open>ValueError\<close>) and \<open>datetime.strptime\<close> (\<open>None\<close> for
  \<open>ValueError\<close>) are the parameters \<open>py_str\<close>, \<open>py_int\<close> and \<open>strptime\<close>;
  \<open>epoch\<close> is \<open>datetime.fromtimestamp(0)\<close>. Dates are values of any linear order.
  \<open>sort_fields\<close> is the tuple \<open>(priority, date, int_value, str_value)\<close> before the
  \<open>return\<close>, which negates the priority value when \<open>reverse\<close> is set.
\<close>

definition sort_fields ::
  "(pyval \<Rightarrow> string) \<Rightarrow> (string \<Rightarrow> int option) \<Rightarrow> (string \<Rightarrow> string \<Rightarrow> 'dt option) \<Rightarrow> 'dt
     \<Rightarrow> string \<Rightarrow> document \<Rightarrow> SortPriority \<times> 'dt \<times> int \<times> string" where
  "sort_fields py_str py_int strptime epoch k doc =
     (let v = dict_get (items doc) k in
      if v = PNone then (SortMissing, epoch, 0, [])
      else
        (let str_value = py_str v in
         if k = ''time-added'' then
           (case strptime str_value time_format of
              Some d \<Rightarrow> (SortDate, d, 0, str_value)
            | None \<Rightarrow> (SortMissing, epoch, 0, str_value))
         else
           (case py_int str_value of
              Some i \<Rightarrow> (SortInt, epoch, i, str_value)
            | None \<Rightarrow> (SortOther, epoch, 0, str_value))))"

definition document_sort_key ::
  "(pyval \<Rightarrow> string) \<Rightarrow> (string \<Rightarrow> int option) \<Rightarrow> (string \<Rightarrow> string \<Rightarrow> 'dt option) \<Rightarrow> 'dt
     \<Rightarrow> string \<Rightarrow> bool \<Rightarrow> document \<Rightarrow> int \<times> 'dt \<times> int \<times> string" where
  "document_sort_key py_str py_int strptime epoch k reverse doc =
     (case sort_fields py_str py_int strptime epoch k doc of
        (priority, rest) \<Rightarrow>
          (if reverse then - priority_value priority else priority_value priority, rest))"

text \<open>
  \<open>sorted(xs, key=f, reverse=r)\<close>: a stable sort by the key; with \<open>reverse\<close> the list
  is reversed, sorted and reversed again, so that the keys descend and equal keys keep
  their order. Tuples compare lexicographically.
\<close>

definition py_sorted :: "('a \<Rightarrow> 'k::linorder) \<Rightarrow> bool \<Rightarrow> 'a list \<Rightarrow> 'a list" where
  "py_sorted f reverse xs = (if reverse then rev (sort_key f (rev xs)) else sort_key f xs)"

definition sort_docs ::
  "(pyval \<Rightarrow> string) \<Rightarrow> (string \<Rightarrow> int option) \<Rightarrow> (string \<Rightarrow> string \<Rightarrow> ('dt::linorder) option) \<Rightarrow> 'dt
     \<Rightarrow> document list \<Rightarrow> string \<Rightarrow> bool \<Rightarrow> document list" where
  "sort_docs py_str py_int strptime epoch docs k reverse =
     py_sorted (document_sort_key py_str py_int strptime epoch k reverse) reverse docs"

text \<open>The comparator in the words of the specification: ascending by the tuple, the
  priority negated when \<open>reverse\<close> is requested.\<close>

definition sort_as_specified ::
  "(pyval \<Rightarrow> string) \<Rightarrow> (string \<Rightarrow> int option) \<Rightarrow> (string \<Rightarrow> string \<Rightarrow> ('dt::linorder) option) \<Rightarrow> 'dt
     \<Rightarrow> document list \<Rightarrow> string \<Rightarrow> bool \<Rightarrow> document list" where
  "sort_as_specified py_str py_int strptime epoch docs k reverse =
     sort_key (document_sort_key py_str py_int strptime epoch k reverse) docs"

text \<open>
  An instance of \<open>py_int\<close> for the examples: \<open>int(s)\<close> on ASCII text. Surrounding
  white space (tab, line feed, vertical tab, form feed, carriage return, space) is
  dropped, a sign may lead, the digits may be grouped by single underscores, and more
  than 4300 digits are refused (the default limit of the interpreter).
\<close>

definition is_c_space :: "char \<Rightarrow> bool" where
  "is_c_space c = (of_char c \<in> {9, 10, 11, 12, 13, 32 :: nat})"

definition is_digit :: "char \<Rightarrow> bool" where
  "is_digit c = (48 \<le> (of_char c :: nat) \<and> (of_char c :: nat) \<le> 57)"

fun valid_digits :: "string \<Rightarrow> bool" where
  "valid_digits [] = False"
| "valid_digits [c] = is_digit c"
| "valid_digits (c # d # r) =
     (is_digit c \<and> (if d = CHR ''_'' then valid_digits r else valid_digits (d # r)))"

definition int_of_text :: "string \<Rightarrow> int option" where
  "int_of_text s =
     (let t = rev (dropWhile is_c_space (rev (dropWhile is_c_space s)));
          (neg, body) =
            (case t of
               [] \<Rightarrow> (False, [])
             | c # r \<Rightarrow> if c = CHR ''-'' then (True, r)
                        else if c = CHR ''+'' then (False, r) else (False, t))
      in if valid_digits body \<and> length (filter is_digit body) \<le> 4300 then
           Some ((if neg then - 1 else 1) *
                 fold (\<lambda>c n. 10 * n + (int (of_char c) - 48)) (filter is_digit body) 0)
         else None)"

text \<open>Three documents for the examples: two with a \<open>year\<close>, one without.\<close>

definition doc_year :: "string \<Rightarrow> document" where
  "doc_year y = \<lparr>folder = None, info_file_path = [], subfolder = [],
                 items = [(''year'', PStr y)]\<rparr>"

definition doc_untitled :: document where
  "doc_untitled = \<lparr>folder = None, info_file_path = [], subfolder = [],
                   items = [(''title'', PStr ''T'')]\<rparr>"

section \<open>Properties of the Document entity\<close>

subsection \<open>Absent keys\<close>

text \<open>
  Claim C9. For every document and every key that is not among its fields, subscript
  access \<open>doc[key]\<close> yields the empty string instead of raising.
\<close>

theorem getitem_missing:
  "\<not> has doc k \<Longrightarrow> getitem doc k = PStr []"
  by (simp add: has_def has_key_def getitem_def missing_def map_of_eq_None_iff [symmetric])

theorem getitem_missing_witness:
  "\<not> has \<lparr>folder = None, info_file_path = [], subfolder = [],
            items = [(''title'', PStr ''Hello World'')]\<rparr> ''year''
   \<and> getitem \<lparr>folder = None, info_file_path = [], subfolder = [],
            items = [(''title'', PStr ''Hello World'')]\<rparr> ''year'' = PStr []"
proof -
  have h: "\<not> has \<lparr>folder = None, info_file_path = [], subfolder = [],
            items = [(''title'', PStr ''Hello World'')]\<rparr> ''year''"
    by (simp add: has_def has_key_def)
  show ?thesis using h getitem_missing [OF h] by simp
qed

subsection \<open>Files of a document\<close>

lemma collect_map_Inr: "collect (map (\<lambda>x. Inr (f x)) xs) = Inr (map f xs)"
  by (induction xs) simp_all

lemma join_entries_strings:
  "collect (map (join_entry d \<circ> PStr) ss) = Inr (map (path_join d) ss)"
  by (induction ss) simp_all

lemma is_abs_path_join: "is_abs d \<Longrightarrow> is_abs (path_join d s)"
  by (cases d; cases s) (auto simp: is_abs_def path_join_def)

text \<open>
  Claim C8. \<open>get_files\<close> returns the empty list when the folder is unset, whatever the
  \<open>files\<close> field holds, and when the \<open>files\<close> field is absent; otherwise a single
  string is treated as a one-element list and every entry is joined onto the folder, the
  result being an absolute path when the folder is one.
\<close>

theorem get_files_spec:
  "(folder doc = None \<longrightarrow> get_files doc = Inr [])
   \<and> (\<not> has doc ''files'' \<longrightarrow> get_files doc = Inr [])
   \<and> (folder doc = Some d \<and> map_of (items doc) ''files'' = Some (PStr s)
        \<longrightarrow> get_files doc = Inr [path_join d s])
   \<and> (folder doc = Some d \<and> map_of (items doc) ''files'' = Some (PList (map PStr ss))
        \<longrightarrow> get_files doc = Inr (map (path_join d) ss))
   \<and> (is_abs d \<longrightarrow> is_abs (path_join d s))"
proof (intro conjI impI)
  assume "folder doc = None"
  then show "get_files doc = Inr []"
    by (simp add: get_files_def get_main_folder_def)
next
  assume "\<not> has doc ''files''"
  then have "map_of (items doc) ''files'' = None"
    by (simp add: has_def has_key_def map_of_eq_None_iff)
  then show "get_files doc = Inr []"
    by (simp add: get_files_def dict_get_def split: option.splits)
next
  assume "folder doc = Some d \<and> map_of (items doc) ''files'' = Some (PStr s)"
  then show "get_files doc = Inr [path_join d s]"
    by (simp add: get_files_def get_main_folder_def dict_get_def)
next
  assume "folder doc = Some d \<and> map_of (items doc) ''files'' = Some (PList (map PStr ss))"
  then show "get_files doc = Inr (map (path_join d) ss)"
    by (simp add: get_files_def get_main_folder_def dict_get_def join_entries_strings)
next
  assume "is_abs d"
  then show "is_abs (path_join d s)" by (rule is_abs_path_join)
qed

theorem get_files_spec_witness:
  "get_files \<lparr>folder = None, info_file_path = [], subfolder = [],
              items = [(''files'', PList [PStr ''a.pdf''])]\<rparr> = Inr []
   \<and> get_files \<lparr>folder = Some ''/lib/doc'', info_file_path = ''/lib/doc/info.yaml'',
              subfolder = [], items = [(''title'', PStr ''T'')]\<rparr> = Inr []
   \<and> get_files \<lparr>folder = Some ''/lib/doc'', info_file_path = ''/lib/doc/info.yaml'',
              subfolder = [], items = [(''files'', PStr ''a.pdf'')]\<rparr> = Inr [''/lib/doc/a.pdf'']
   \<and> get_files \<lparr>folder = Some ''/lib/doc'', info_file_path = ''/lib/doc/info.yaml'',
              subfolder = [], items = [(''files'', PList [PStr ''a.pdf'', PStr ''b.pdf''])]\<rparr>
       = Inr [''/lib/doc/a.pdf'', ''/lib/doc/b.pdf'']
   \<and> is_abs (path_join ''/lib/doc'' ''a.pdf'')"
  using
    get_files_spec [of "\<lparr>folder = None, info_file_path = [], subfolder = [],
              items = [(''files'', PList [PStr ''a.pdf''])]\<rparr>" "[]" "[]" "[]"]
    get_files_spec [of "\<lparr>folder = Some ''/lib/doc'', info_file_path = ''/lib/doc/info.yaml'',
              subfolder = [], items = [(''title'', PStr ''T'')]\<rparr>" "''/lib/doc''" "[]" "[]"]
    get_files_spec [of "\<lparr>folder = Some ''/lib/doc'', info_file_path = ''/lib/doc/info.yaml'',
              subfolder = [], items = [(''files'', PStr ''a.pdf'')]\<rparr>" "''/lib/doc''" "''a.pdf''" "[]"]
    get_files_spec [of "\<lparr>folder = Some ''/lib/doc'', info_file_path = ''/lib/doc/info.yaml'',
              subfolder = [], items = [(''files'', PList [PStr ''a.pdf'', PStr ''b.pdf''])]\<rparr>"
              "''/lib/doc''" "[]" "[''a.pdf'', ''b.pdf'']"]
  by (simp add: has_def has_key_def path_join_def is_abs_def)

subsection \<open>The aligned dump\<close>

lemma fold_max_Max:
  "fold max xs (a::nat) = Max (insert a (set xs))"
  using Max.set_eq_fold [of a xs] by simp

lemma dump_width_Suc:
  "Suc (dump_width d) = 4 * (Max (insert 0 (length ` fst ` set d)) div 4 + 2)"
proof -
  have "(\<lambda>(k, v). length k) = length \<circ> (fst :: string \<times> pyval \<Rightarrow> string)"
    by (simp add: fun_eq_iff)
  then have "set (map (\<lambda>(k, v). length k) d) = length ` fst ` set d"
    by (simp add: image_comp)
  then show ?thesis
    unfolding dump_width_def fold_max_Max by simp
qed

lemma dump_width_gap:
  assumes "(k, v) \<in> set d"
  shows "3 \<le> dump_width d - Suc (length k)"
proof -
  define M where "M = Max (insert 0 (length ` fst ` set d))"
  define q where "q = M div 4"
  have "length k \<in> insert 0 (length ` fst ` set d)"
    using assms by force
  then have "length k \<le> M"
    unfolding M_def by (intro Max_ge) auto
  moreover have "M < 4 * q + 4"
    unfolding q_def by presburger
  moreover have "Suc (dump_width d) = 4 * q + 8"
    using dump_width_Suc [of d] by (simp add: M_def q_def)
  ultimately show ?thesis by arith
qed

lemma ljust_short:
  "ljust (k @ '':'') w = k @ '':'' @ replicate (w - Suc (length k)) CHR '' ''"
  by (simp add: ljust_def)

lemma dump_title_example:
  "dump str_of_text \<lparr>folder = None, info_file_path = [], subfolder = [],
       items = [(''title'', PStr ''Hello World'')]\<rparr> = Inr ''title:     Hello World''"
  by code_simp

lemma Max_insert_zero:
  "finite S \<Longrightarrow> S \<noteq> {} \<Longrightarrow> Max (insert (0::nat) S) = Max S"
  by simp

text \<open>
  Claim C6, as stated: the key column is as wide as the next multiple of 4 above the
  longest key length. For the single key \<open>title\<close> of length 5 that would be 8; the
  code pads to 11.
\<close>

theorem dump_width_counterexample:
  "dump_width [(''title'', PStr ''Hello World'')] = 11
   \<and> next_multiple_of_4_above (length ''title'') = 8
   \<and> dump_width [(''title'', PStr ''Hello World'')] \<noteq> next_multiple_of_4_above (length ''title'')"
  by code_simp

text \<open>
  Claim C6, amended. For every non-empty document, \<open>dump\<close> renders one line per
  field, sorted by key, each made of the key, a colon, spaces up to the column width and
  the value. The column width is \<open>(L div 4 + 2) * 4 - 1\<close> for the longest key length
  \<open>L\<close>, one less than the second multiple of 4 above \<open>L\<close>, so at least three spaces
  follow every colon. The dump of \<open>{"title": "Hello World"}\<close> is the single line
  \<open>title:     Hello World\<close>, with five spaces.
\<close>

theorem dump_layout:
  assumes "items doc \<noteq> []"
  shows "dump py_str doc =
           Inr (str_join [CHR 0x0A]
                 (map (\<lambda>(k, v). k @ '':'' @
                         replicate (dump_width (items doc) - Suc (length k)) CHR '' '' @ py_str v)
                      (sort_key fst (items doc))))
         \<and> length (sort_key fst (items doc)) = length (items doc)
         \<and> mset (sort_key fst (items doc)) = mset (items doc)
         \<and> sorted (map fst (sort_key fst (items doc)))
         \<and> Suc (dump_width (items doc)) = 4 * (Max (length ` fst ` set (items doc)) div 4 + 2)
         \<and> (\<forall>(k, v) \<in> set (items doc). 3 \<le> dump_width (items doc) - Suc (length k))
         \<and> dump str_of_text \<lparr>folder = None, info_file_path = [], subfolder = [],
               items = [(''title'', PStr ''Hello World'')]\<rparr> = Inr ''title:     Hello World''"
proof (intro conjI)
  have "dump_line py_str w = (\<lambda>(k, v). k @ '':'' @ replicate (w - Suc (length k)) CHR '' '' @ py_str v)"
    for w
    by (simp add: dump_line_def ljust_short fun_eq_iff)
  with assms show "dump py_str doc =
           Inr (str_join [CHR 0x0A]
                 (map (\<lambda>(k, v). k @ '':'' @
                         replicate (dump_width (items doc) - Suc (length k)) CHR '' '' @ py_str v)
                      (sort_key fst (items doc))))"
    by (simp add: dump_def)
next
  show "length (sort_key fst (items doc)) = length (items doc)" by simp
next
  show "mset (sort_key fst (items doc)) = mset (items doc)" by simp
next
  show "sorted (map fst (sort_key fst (items doc)))" by (rule sorted_sort_key)
next
  have "length ` fst ` set (items doc) \<noteq> {}" using assms by simp
  then have "Max (insert 0 (length ` fst ` set (items doc))) = Max (length ` fst ` set (items doc))"
    by simp
  then show "Suc (dump_width (items doc)) = 4 * (Max (length ` fst ` set (items doc)) div 4 + 2)"
    using dump_width_Suc [of "items doc"] by simp
next
  show "\<forall>(k, v) \<in> set (items doc). 3 \<le> dump_width (items doc) - Suc (length k)"
    using dump_width_gap by blast
next
  show "dump str_of_text \<lparr>folder = None, info_file_path = [], subfolder = [],
               items = [(''title'', PStr ''Hello World'')]\<rparr> = Inr ''title:     Hello World''"
    by (rule dump_title_example)
qed

theorem dump_layout_witness:
  "items \<lparr>folder = None, info_file_path = [], subfolder = [],
       items = [(''title'', PStr ''Hello World''), (''author'', PStr ''X'')]\<rparr> \<noteq> []
   \<and> dump str_of_text \<lparr>folder = None, info_file_path = [], subfolder = [],
       items = [(''title'', PStr ''Hello World''), (''author'', PStr ''X'')]\<rparr>
      = Inr (''author:    X'' @ [CHR 0x0A] @ ''title:     Hello World'')"
proof -
  have h: "items \<lparr>folder = None, info_file_path = [], subfolder = [],
       items = [(''title'', PStr ''Hello World''), (''author'', PStr ''X'')]\<rparr> \<noteq> []"
    by simp
  have r: "str_join [CHR 0x0A]
         (map (\<lambda>(k, v). k @ '':'' @
                 replicate (dump_width [(''title'', PStr ''Hello World''), (''author'', PStr ''X'')]
                              - Suc (length k)) CHR '' '' @ str_of_text v)
              (sort_key fst [(''title'', PStr ''Hello World''), (''author'', PStr ''X'')]))
        = ''author:    X'' @ [CHR 0x0A] @ ''title:     Hello World''"
    by code_simp
  have e: "dump str_of_text \<lparr>folder = None, info_file_path = [], subfolder = [],
       items = [(''title'', PStr ''Hello World''), (''author'', PStr ''X'')]\<rparr>
      = Inr (''author:    X'' @ [CHR 0x0A] @ ''title:     Hello World'')"
    using conjunct1 [OF dump_layout [OF h, of str_of_text]]
    unfolding document.select_convs r .
  from h e show ?thesis by (rule conjI)
qed

section \<open>Properties of the key-conversion engine\<close>

subsection \<open>Joining authors without an author list\<close>

text \<open>
  Claim C10. On a mapping without the key \<open>author_list\<close>, \<open>author_list_to_author\<close>
  returns the empty string before it looks up the configuration: whatever
  \<open>getstring\<close> does (return \<open>None\<close>, raise), no error is raised.
\<close>

theorem author_list_to_author_without_list:
  "\<not> has_key data ''author_list'' \<Longrightarrow> author_list_to_author getstring str_format data = Inr []"
  by (simp add: author_list_to_author_def)

theorem author_list_to_author_without_list_witness:
  "\<not> has_key [(''title'', PStr ''T'')] ''author_list''
   \<and> author_list_to_author getstring_unset format_family_given [(''title'', PStr ''T'')] = Inr []
   \<and> author_list_to_author (\<lambda>k. Inl (OtherError k)) format_family_given
         [(''title'', PStr ''T'')] = Inr []"
proof -
  have h: "\<not> has_key [(''title'', PStr ''T'')] ''author_list''"
    by (simp add: has_key_def)
  show ?thesis
    using h author_list_to_author_without_list [OF h, of getstring_unset format_family_given]
      author_list_to_author_without_list [OF h, of "\<lambda>k. Inl (OtherError k)" format_family_given]
    by simp
qed

subsection \<open>A rule whose action raises\<close>

lemma apply_conversion_raises:
  assumes "conv_action c = Some act" and "act v = Inl e"
  shows "apply_conversion fk v c (log, nd) =
           (log @ [LogRecord DEBUG ''Error while trying to parse '%s' (%s).''
                     [papis_key_of fk c] (Some e)], nd)"
  using assms by (simp add: apply_conversion_def)

lemma snd_apply_conversion:
  "snd (apply_conversion fk v c (l1, nd)) = snd (apply_conversion fk v c (l2, nd))"
  by (simp add: apply_conversion_def Let_def split: option.splits sum.splits prod.splits)

lemma snd_fold_apply_conversion:
  "snd (fold (apply_conversion fk v) cs (l1, nd)) = snd (fold (apply_conversion fk v) cs (l2, nd))"
proof (induction cs arbitrary: l1 l2 nd)
  case Nil
  then show ?case by simp
next
  case (Cons c cs)
  obtain a1 n1 where s1: "apply_conversion fk v c (l1, nd) = (a1, n1)"
    by (cases "apply_conversion fk v c (l1, nd)")
  obtain a2 n2 where s2: "apply_conversion fk v c (l2, nd) = (a2, n2)"
    by (cases "apply_conversion fk v c (l2, nd)")
  from snd_apply_conversion [of fk v c l1 nd l2] s1 s2 have "n1 = n2" by simp
  with s1 s2 Cons.IH [of a1 n1 a2] show ?case by simp
qed

lemma snd_convert_pair:
  "snd (convert_pair data p (l1, nd)) = snd (convert_pair data p (l2, nd))"
  by (simp add: convert_pair_def snd_fold_apply_conversion split: option.splits)

lemma snd_fold_convert_pair:
  "snd (fold (convert_pair data) ps (l1, nd)) = snd (fold (convert_pair data) ps (l2, nd))"
proof (induction ps arbitrary: l1 l2 nd)
  case Nil
  then show ?case by simp
next
  case (Cons p ps)
  obtain a1 n1 where s1: "convert_pair data p (l1, nd) = (a1, n1)"
    by (cases "convert_pair data p (l1, nd)")
  obtain a2 n2 where s2: "convert_pair data p (l2, nd) = (a2, n2)"
    by (cases "convert_pair data p (l2, nd)")
  from snd_convert_pair [of data p l1 nd l2] s1 s2 have "n1 = n2" by simp
  with s1 s2 Cons.IH [of a1 n1 a2] show ?case by simp
qed

lemma snd_fold_convert_pair_eq:
  assumes "snd st1 = snd st2"
  shows "snd (fold (convert_pair data) ps st1) = snd (fold (convert_pair data) ps st2)"
  using assms snd_fold_convert_pair [of data ps "fst st1" "snd st1" "fst st2"]
  by (cases st1; cases st2) simp

lemma snd_fold_apply_conversion_eq:
  assumes "snd st1 = snd st2"
  shows "snd (fold (apply_conversion fk v) cs st1) = snd (fold (apply_conversion fk v) cs st2)"
  using assms snd_fold_apply_conversion [of fk v cs "fst st1" "snd st1" "fst st2"]
  by (cases st1; cases st2) simp

lemma convert_pair_drop_raising:
  assumes "map_of data fk = Some v" and "conv_action c = Some act" and "act v = Inl e"
  shows "snd (convert_pair data (KeyConversionPair fk (rs1 @ c # rs2)) st) =
         snd (convert_pair data (KeyConversionPair fk (rs1 @ rs2)) st)"
proof -
  obtain l nd where st: "fold (apply_conversion fk v) rs1 st = (l, nd)"
    by (cases "fold (apply_conversion fk v) rs1 st")
  have "snd (apply_conversion fk v c (l, nd)) = snd (l, nd)"
    using apply_conversion_raises [OF assms(2,3)] by simp
  then have "snd (fold (apply_conversion fk v) rs2 (apply_conversion fk v c (l, nd))) =
             snd (fold (apply_conversion fk v) rs2 (l, nd))"
    by (rule snd_fold_apply_conversion_eq)
  with st assms(1) show ?thesis
    by (simp add: convert_pair_def)
qed

lemma snd_keyconversion_to_data:
  assumes "snd (fold (convert_pair data) ps ([], [])) = snd (fold (convert_pair data) qs ([], []))"
    and "set (map foreign_key ps) = set (map foreign_key qs)"
  shows "snd (keyconversion_to_data gs sf ps data keep) =
         snd (keyconversion_to_data gs sf qs data keep)"
proof -
  obtain l1 n1 where s1: "fold (convert_pair data) ps ([], []) = (l1, n1)"
    by (cases "fold (convert_pair data) ps ([], [])")
  obtain l2 n2 where s2: "fold (convert_pair data) qs ([], []) = (l2, n2)"
    by (cases "fold (convert_pair data) qs ([], [])")
  from assms(1) s1 s2 have n: "n1 = n2" by simp
  have c: "copy_unknown ps data n2 = copy_unknown qs data n2"
    using assms(2) by (simp add: copy_unknown_def)
  show ?thesis
    unfolding keyconversion_to_data_def s1 s2 n
    by (simp add: c Let_def split: sum.splits)
qed

lemma log_apply_conversion:
  "set l \<subseteq> set (fst (apply_conversion fk v c (l, nd)))"
  by (auto simp: apply_conversion_def Let_def split: option.splits sum.splits prod.splits)

lemma log_fold_apply_conversion:
  "set (fst st) \<subseteq> set (fst (fold (apply_conversion fk v) cs st))"
proof (induction cs arbitrary: st)
  case Nil
  then show ?case by simp
next
  case (Cons c cs)
  have "set (fst st) \<subseteq> set (fst (apply_conversion fk v c st))"
    using log_apply_conversion [of "fst st" fk v c "snd st"] by simp
  with Cons.IH [of "apply_conversion fk v c st"] show ?case by auto
qed

lemma log_convert_pair:
  "set (fst st) \<subseteq> set (fst (convert_pair data p st))"
  by (simp add: convert_pair_def log_fold_apply_conversion split: option.splits)

lemma log_fold_convert_pair:
  "set (fst st) \<subseteq> set (fst (fold (convert_pair data) ps st))"
proof (induction ps arbitrary: st)
  case Nil
  then show ?case by simp
next
  case (Cons p ps)
  have a: "set (fst st) \<subseteq> set (fst (convert_pair data p st))"
    by (rule log_convert_pair)
  have b: "set (fst (convert_pair data p st))
             \<subseteq> set (fst (fold (convert_pair data) ps (convert_pair data p st)))"
    by (rule Cons.IH)
  from a b have "set (fst st)
             \<subseteq> set (fst (fold (convert_pair data) ps (convert_pair data p st)))"
    by (rule subset_trans)
  then show ?case by simp
qed

lemma fst_keyconversion_to_data:
  "fst (keyconversion_to_data gs sf ps data keep) = fst (fold (convert_pair data) ps ([], []))"
  by (cases "fold (convert_pair data) ps ([], [])")
     (simp add: keyconversion_to_data_def Let_def split: sum.splits)

lemma raising_rule_logged:
  assumes "map_of data fk = Some v" and "conv_action c = Some act" and "act v = Inl e"
  shows "LogRecord DEBUG ''Error while trying to parse '%s' (%s).'' [papis_key_of fk c] (Some e)
         \<in> set (fst (fold (convert_pair data)
                        (ps1 @ KeyConversionPair fk (rs1 @ c # rs2) # ps2) ([], [])))"
proof -
  let ?r = "LogRecord DEBUG ''Error while trying to parse '%s' (%s).'' [papis_key_of fk c] (Some e)"
  define st0 where "st0 = fold (convert_pair data) ps1 ([], [])"
  define st1 where "st1 = fold (apply_conversion fk v) rs1 st0"
  have "apply_conversion fk v c st1 = (fst st1 @ [?r], snd st1)"
    using apply_conversion_raises [OF assms(2,3), of fk "fst st1" "snd st1"] by simp
  then have "?r \<in> set (fst (apply_conversion fk v c st1))" by simp
  then have "?r \<in> set (fst (fold (apply_conversion fk v) rs2 (apply_conversion fk v c st1)))"
    using log_fold_apply_conversion by blast
  then have "?r \<in> set (fst (convert_pair data (KeyConversionPair fk (rs1 @ c # rs2)) st0))"
    using assms(1) by (simp add: convert_pair_def st1_def)
  then have "?r \<in> set (fst (fold (convert_pair data) ps2
                (convert_pair data (KeyConversionPair fk (rs1 @ c # rs2)) st0)))"
    using log_fold_convert_pair by blast
  then show ?thesis by (simp add: st0_def)
qed

text \<open>
  Claim C3. A rule whose action raises on the source value is caught: the step logs one
  record at debug level and leaves the result as it was, so the whole conversion returns
  what it returns without that rule (the other rules and keys are converted as before,
  and no exception of the action comes out), and the debug record is in the log.
\<close>

theorem keyconversion_raising_rule:
  assumes "map_of data fk = Some v" and "conv_action c = Some act" and "act v = Inl e"
  shows "apply_conversion fk v c (log, nd) =
           (log @ [LogRecord DEBUG ''Error while trying to parse '%s' (%s).''
                     [papis_key_of fk c] (Some e)], nd)
         \<and> snd (keyconversion_to_data gs sf (ps1 @ KeyConversionPair fk (rs1 @ c # rs2) # ps2)
                  data keep)
           = snd (keyconversion_to_data gs sf (ps1 @ KeyConversionPair fk (rs1 @ rs2) # ps2)
                  data keep)
         \<and> LogRecord DEBUG ''Error while trying to parse '%s' (%s).'' [papis_key_of fk c] (Some e)
           \<in> set (fst (keyconversion_to_data gs sf
                          (ps1 @ KeyConversionPair fk (rs1 @ c # rs2) # ps2) data keep))"
proof (intro conjI)
  show "apply_conversion fk v c (log, nd) =
           (log @ [LogRecord DEBUG ''Error while trying to parse '%s' (%s).''
                     [papis_key_of fk c] (Some e)], nd)"
    by (rule apply_conversion_raises [OF assms(2,3)])
next
  let ?st = "fold (convert_pair data) ps1 ([], [])"
  have "snd (convert_pair data (KeyConversionPair fk (rs1 @ c # rs2)) ?st) =
        snd (convert_pair data (KeyConversionPair fk (rs1 @ rs2)) ?st)"
    by (rule convert_pair_drop_raising [OF assms])
  then have "snd (fold (convert_pair data) ps2
                    (convert_pair data (KeyConversionPair fk (rs1 @ c # rs2)) ?st)) =
             snd (fold (convert_pair data) ps2
                    (convert_pair data (KeyConversionPair fk (rs1 @ rs2)) ?st))"
    by (rule snd_fold_convert_pair_eq)
  then have "snd (fold (convert_pair data) (ps1 @ KeyConversionPair fk (rs1 @ c # rs2) # ps2)
                    ([], [])) =
             snd (fold (convert_pair data) (ps1 @ KeyConversionPair fk (rs1 @ rs2) # ps2)
                    ([], []))"
    by simp
  then show "snd (keyconversion_to_data gs sf (ps1 @ KeyConversionPair fk (rs1 @ c # rs2) # ps2)
                  data keep)
           = snd (keyconversion_to_data gs sf (ps1 @ KeyConversionPair fk (rs1 @ rs2) # ps2)
                  data keep)"
    by (rule snd_keyconversion_to_data) simp
next
  show "LogRecord DEBUG ''Error while trying to parse '%s' (%s).'' [papis_key_of fk c] (Some e)
           \<in> set (fst (keyconversion_to_data gs sf
                          (ps1 @ KeyConversionPair fk (rs1 @ c # rs2) # ps2) data keep))"
    unfolding fst_keyconversion_to_data by (rule raising_rule_logged [OF assms])
qed

theorem keyconversion_raising_rule_witness:
  "map_of [(''id'', PStr ''10.1103/x'')] ''id'' = Some (PStr ''10.1103/x'')
   \<and> conv_action (KeyConversion (Some ''url'') (Some (\<lambda>v. Inl ValueError)))
       = Some (\<lambda>v. Inl ValueError)
   \<and> snd (keyconversion_to_data getstring_unset format_family_given
            [KeyConversionPair ''id''
               [KeyConversion (Some ''doi'') None,
                KeyConversion (Some ''url'') (Some (\<lambda>v. Inl ValueError))]]
            [(''id'', PStr ''10.1103/x'')] False)
       = Inr [(''doi'', PStr ''10.1103/x'')]
   \<and> LogRecord DEBUG ''Error while trying to parse '%s' (%s).'' [''url''] (Some ValueError)
       \<in> set (fst (keyconversion_to_data getstring_unset format_family_given
            [KeyConversionPair ''id''
               [KeyConversion (Some ''doi'') None,
                KeyConversion (Some ''url'') (Some (\<lambda>v. Inl ValueError))]]
            [(''id'', PStr ''10.1103/x'')] False))"
proof -
  have h1: "map_of [(''id'', PStr ''10.1103/x'')] ''id'' = Some (PStr ''10.1103/x'')"
    by simp
  have h2: "conv_action (KeyConversion (Some ''url'') (Some (\<lambda>v. Inl ValueError)))
       = Some (\<lambda>v. Inl ValueError)"
    by simp
  have h3: "(\<lambda>v. Inl ValueError :: exn + pyval) (PStr ''10.1103/x'') = Inl ValueError"
    by simp
  note t = keyconversion_raising_rule [OF h1 h2 h3,
      where gs = getstring_unset and sf = format_family_given and ?ps1.0 = "[]"
        and ?rs1.0 = "[KeyConversion (Some ''doi'') None]" and ?rs2.0 = "[]" and ?ps2.0 = "[]"
        and keep = False]
  have r: "snd (keyconversion_to_data getstring_unset format_family_given
            [KeyConversionPair ''id'' [KeyConversion (Some ''doi'') None]]
            [(''id'', PStr ''10.1103/x'')] False)
       = Inr [(''doi'', PStr ''10.1103/x'')]"
    by code_simp
  have k: "papis_key_of ''id'' (KeyConversion (Some ''url'') (Some (\<lambda>v. Inl ValueError))) = ''url''"
    by (simp add: papis_key_of_def)
  from t r k h1 h2 show ?thesis
    by (simp only: append_Nil append_Cons)
qed

subsection \<open>The author string derived from the author list\<close>

lemma has_key_update:
  "has_key (AList.update k v d) k' = (k' = k \<or> has_key d k')"
  by (auto simp: has_key_def dom_update)

lemma dict_get_update:
  "dict_get (AList.update k v d) k' = (if k' = k then v else dict_get d k')"
  by (simp add: dict_get_def update_conv')

lemma author_list_to_author_update_author:
  "author_list_to_author gs sf (AList.update ''author'' x nd) = author_list_to_author gs sf nd"
proof -
  have a: "has_key (AList.update ''author'' x nd) ''author_list'' = has_key nd ''author_list''"
    by (simp add: has_key_update)
  have b: "dict_get (AList.update ''author'' x nd) ''author_list'' = dict_get nd ''author_list''"
    by (simp add: dict_get_update)
  show ?thesis
    unfolding author_list_to_author_def a b ..
qed

text \<open>
  Claim C4. Whenever the dictionary returned by \<open>keyconversion_to_data\<close> has the key
  \<open>author_list\<close>, its \<open>author\<close> entry is the string that \<open>author_list_to_author\<close>
  builds from that list with the configured format and separator, whatever the conversion
  rules wrote under \<open>author\<close>.
\<close>

theorem keyconversion_author:
  assumes "keyconversion_to_data gs sf convs data keep = (log, Inr r)"
    and "has_key r ''author_list''"
  shows "\<exists>a. author_list_to_author gs sf r = Inr a \<and> map_of r ''author'' = Some (PStr a)"
proof -
  obtain l nd0 where f: "fold (convert_pair data) convs ([], []) = (l, nd0)"
    by (cases "fold (convert_pair data) convs ([], [])")
  define nd where "nd = (if keep then copy_unknown convs data nd0 else nd0)"
  show ?thesis
  proof (cases "has_key nd ''author_list''")
    case True
    with assms(1) f obtain a where a: "author_list_to_author gs sf nd = Inr a"
      and r: "r = AList.update ''author'' (PStr a) nd"
      by (auto simp: keyconversion_to_data_def nd_def Let_def split: sum.splits if_splits)
    have "author_list_to_author gs sf r = Inr a"
      unfolding r author_list_to_author_update_author by (rule a)
    moreover have "map_of r ''author'' = Some (PStr a)"
      unfolding r by (simp add: update_conv')
    ultimately show ?thesis by blast
  next
    case False
    with assms(1) f have "r = nd"
      by (auto simp: keyconversion_to_data_def nd_def Let_def split: sum.splits if_splits)
    with False assms(2) show ?thesis by simp
  qed
qed

theorem keyconversion_author_witness:
  "keyconversion_to_data getstring_default format_family_given
      [KeyConversionPair ''authors'' [KeyConversion (Some ''author_list'') None],
       KeyConversionPair ''name'' [KeyConversion (Some ''author'') None]]
      [(''authors'', example_authors), (''name'', PStr ''Rule Author'')] False
     = ([], Inr [(''author_list'', example_authors),
                 (''author'', PStr ''Author, Some and Author, Other'')])
   \<and> has_key [(''author_list'', example_authors),
               (''author'', PStr ''Author, Some and Author, Other'')] ''author_list''
   \<and> author_list_to_author getstring_default format_family_given
         [(''author_list'', example_authors),
          (''author'', PStr ''Author, Some and Author, Other'')]
       = Inr ''Author, Some and Author, Other''
   \<and> map_of [(''author_list'', example_authors),
              (''author'', PStr ''Author, Some and Author, Other'')] ''author''
       = Some (PStr ''Author, Some and Author, Other'')"
proof -
  have h1: "keyconversion_to_data getstring_default format_family_given
      [KeyConversionPair ''authors'' [KeyConversion (Some ''author_list'') None],
       KeyConversionPair ''name'' [KeyConversion (Some ''author'') None]]
      [(''authors'', example_authors), (''name'', PStr ''Rule Author'')] False
     = ([], Inr [(''author_list'', example_authors),
                 (''author'', PStr ''Author, Some and Author, Other'')])"
    by code_simp
  have h2: "has_key [(''author_list'', example_authors),
               (''author'', PStr ''Author, Some and Author, Other'')] ''author_list''"
    by code_simp
  have e: "author_list_to_author getstring_default format_family_given
         [(''author_list'', example_authors),
          (''author'', PStr ''Author, Some and Author, Other'')]
       = Inr ''Author, Some and Author, Other''"
    by code_simp
  from keyconversion_author [OF h1 h2] e
  have m: "map_of [(''author_list'', example_authors),
              (''author'', PStr ''Author, Some and Author, Other'')] ''author''
       = Some (PStr ''Author, Some and Author, Other'')"
    by auto
  from h1 h2 e m show ?thesis by blast
qed

section \<open>Properties of loading and updating\<close>

subsection \<open>Loading\<close>

text \<open>
  Claim C5. \<open>load\<close> does nothing when the info file does not exist; when the file
  exists and does not parse, \<open>load\<close> logs one error record and leaves the document, its
  fields included, as it was. In both cases it returns: no exception reaches the caller.
\<close>

theorem load_missing_or_corrupt:
  "(info_file_path doc = [] \<or> \<not> path_exists (info_file_path doc)
      \<longrightarrow> load path_exists yaml_to_data doc = ([], doc))
   \<and> (path_exists (info_file_path doc) \<and> info_file_path doc \<noteq> []
        \<and> yaml_to_data (info_file_path doc) = Inl e
      \<longrightarrow> load path_exists yaml_to_data doc =
            ([LogRecord ERROR ''Error reading info file at '%s'. Please check it!''
                [info_file_path doc] (Some e)], doc))"
  by (simp add: load_def get_info_file_def)

theorem load_missing_or_corrupt_witness:
  "\<not> (\<lambda>p. False) (info_file_path foldered)
   \<and> load (\<lambda>p. False) (\<lambda>p. Inr []) foldered = ([], foldered)
   \<and> (\<lambda>p. True) (info_file_path foldered) \<and> info_file_path foldered \<noteq> []
   \<and> (\<lambda>p. Inl ValueError :: exn + pydict) (info_file_path foldered) = Inl ValueError
   \<and> load (\<lambda>p. True) (\<lambda>p. Inl ValueError) foldered =
        ([LogRecord ERROR ''Error reading info file at '%s'. Please check it!''
            [info_file_path foldered] (Some ValueError)], foldered)"
proof -
  have n: "info_file_path foldered \<noteq> []"
    by (simp add: foldered_def)
  from n
    load_missing_or_corrupt [where path_exists = "\<lambda>p. False" and doc = foldered
      and yaml_to_data = "\<lambda>p. Inr []" and e = ValueError]
    load_missing_or_corrupt [where path_exists = "\<lambda>p. True" and doc = foldered
      and yaml_to_data = "\<lambda>p. Inl ValueError" and e = ValueError]
  show ?thesis by simp
qed

subsection \<open>Updating a document without a folder\<close>

text \<open>
  Claim C7. \<open>run\<close> on a document with no folder attached raises: the exception reaches
  the caller, the document is as it was before the call and nothing was done to the
  world outside (nothing is saved). The exception is \<open>DocumentFolderNotFound\<close> with the
  description of the document, when \<open>describe\<close> returns one.
\<close>

theorem run_without_folder:
  assumes "folder doc = None"
  shows "fst (run describe fix_errors save_doc add_and_commit_resource doc data git
                auto_doctor w) \<noteq> None
         \<and> snd (run describe fix_errors save_doc add_and_commit_resource doc data git
                auto_doctor w) = (doc, w)
         \<and> (describe doc = Inr m \<longrightarrow>
              run describe fix_errors save_doc add_and_commit_resource doc data git
                auto_doctor w = (Some (DocumentFolderNotFound m), doc, w))"
  using assms
  by (simp add: run_def raise_folder_not_found_def get_main_folder_def Let_def
        split: sum.splits)

theorem run_without_folder_witness:
  "folder unfoldered = None
   \<and> run describe_title no_effect save_to_store (\<lambda>a b c. no_effect) unfoldered
         (Some [(''tags'', PStr ''b'')]) False False []
       = (Some (DocumentFolderNotFound ''T''), unfoldered, [])
   \<and> run describe_title no_effect save_to_store (\<lambda>a b c. no_effect) foldered
         (Some [(''tags'', PStr ''b'')]) False False []
       = (None, foldered\<lparr>items := [(''title'', PStr ''T''), (''tags'', PStr ''b''),
                                      (''ref'', PStr ''R'')]\<rparr>,
          [(''/lib/doc/info.yaml'',
            [(''title'', PStr ''T''), (''tags'', PStr ''b''), (''ref'', PStr ''R'')])])"
proof -
  have h: "folder unfoldered = None"
    by (simp add: unfoldered_def)
  have d: "describe_title unfoldered = Inr ''T''"
    by (simp add: describe_title_def unfoldered_def getitem_def)
  have f: "run describe_title no_effect save_to_store (\<lambda>a b c. no_effect) foldered
         (Some [(''tags'', PStr ''b'')]) False False []
       = (None, foldered\<lparr>items := [(''title'', PStr ''T''), (''tags'', PStr ''b''),
                                      (''ref'', PStr ''R'')]\<rparr>,
          [(''/lib/doc/info.yaml'',
            [(''title'', PStr ''T''), (''tags'', PStr ''b''), (''ref'', PStr ''R'')])])"
    by (simp add: run_def foldered_def get_main_folder_def get_info_file_def dict_update_def
          save_to_store_def)
  from h d f
    run_without_folder [OF h, of describe_title no_effect save_to_store "\<lambda>a b c. no_effect"
      "Some [(''tags'', PStr ''b'')]" False False "[]" "''T''"]
  show ?thesis by simp
qed

subsection \<open>Precedence of the merged sources\<close>

lemma map_of_dict_update:
  "distinct (map fst other) \<Longrightarrow> map_of (dict_update d other) = map_of d ++ map_of other"
proof (induction other arbitrary: d)
  case Nil
  then show ?case by (simp add: dict_update_def)
next
  case (Cons p other)
  obtain k v where p: "p = (k, v)" by (cases p)
  from Cons.prems p have k: "map_of other k = None" and dist: "distinct (map fst other)"
    by (auto simp: map_of_eq_None_iff)
  have "map_of (dict_update d (p # other)) = map_of (dict_update (AList.update k v d) other)"
    by (simp add: dict_update_def p)
  also have "\<dots> = (map_of d)(k \<mapsto> v) ++ map_of other"
    using Cons.IH [OF dist, of "AList.update k v d"] by (simp only: update_conv')
  also have "\<dots> = map_of d ++ map_of (p # other)"
    using k by (auto simp: p map_add_def fun_eq_iff split: option.splits)
  finally show ?case .
qed

lemma distinct_dict_update:
  "distinct (map fst d) \<Longrightarrow> distinct (map fst (dict_update d other))"
proof (induction other arbitrary: d)
  case Nil
  then show ?case by (simp add: dict_update_def)
next
  case (Cons p other)
  obtain k v where p: "p = (k, v)" by (cases p)
  have "distinct (map fst (AList.update k v d))"
    using Cons.prems by (rule distinct_update)
  from Cons.IH [OF this] show ?case
    by (simp add: dict_update_def p)
qed

lemma map_of_strip_ref:
  "map_of (strip_ref imported) = (map_of imported)(''ref'' := None)"
proof (cases "has_key imported ''ref''")
  case True
  then show ?thesis by (simp add: strip_ref_def delete_conv')
next
  case False
  then have "map_of imported ''ref'' = None"
    by (simp add: has_key_def map_of_eq_None_iff)
  with False show ?thesis by (simp add: strip_ref_def fun_eq_iff)
qed

lemma distinct_strip_ref:
  "distinct (map fst imported) \<Longrightarrow> distinct (map fst (strip_ref imported))"
  by (simp add: strip_ref_def distinct_delete)

text \<open>
  Claim C2, as stated: for every override the importer's \<open>ref\<close> is dropped and so the
  document's own \<open>ref\<close> is preserved. The overrides are overlaid on the document before
  the importers' data: for a document with \<open>ref\<close> \<open>R\<close>, the override \<open>ref\<close> \<open>S\<close> and
  an importer's \<open>ref\<close> \<open>X\<close>, the merged \<open>ref\<close> is \<open>S\<close>, not \<open>R\<close>.
\<close>

theorem ctx_data_ref_counterexample:
  "map_of (items foldered) ''ref'' = Some (PStr ''R'')
   \<and> map_of (ctx_data foldered [(''ref'', PStr ''S'')] [(''ref'', PStr ''X'')]) ''ref''
       = Some (PStr ''S'')
   \<and> map_of (ctx_data foldered [(''ref'', PStr ''S'')] [(''ref'', PStr ''X'')]) ''ref''
       \<noteq> map_of (items foldered) ''ref''"
  by code_simp

text \<open>
  Claim C2, amended. The data handed to \<open>run\<close> overlays, lowest to highest, the
  document's own fields, the user's overrides and the importers' data without its \<open>ref\<close>
  entry, a later source winning on a common key. So an importer's value for a key other
  than \<open>ref\<close> is the merged value; the merged \<open>ref\<close> is the one of the document and the
  overrides, never the importer's, and it is the document's own \<open>ref\<close> when the overrides
  set none; and applying the merged data to the document gives exactly the merged data.
  (The dictionaries are well formed: their keys are distinct.)
\<close>

theorem ctx_data_precedence:
  assumes "wf_dict (items doc)" and "wf_dict set_data" and "wf_dict imported"
  shows "map_of (ctx_data doc set_data imported)
           = map_of (items doc) ++ map_of set_data ++ (map_of imported)(''ref'' := None)
         \<and> map_of (ctx_data doc set_data imported) ''ref''
           = (map_of (items doc) ++ map_of set_data) ''ref''
         \<and> (\<forall>k v. map_of imported k = Some v \<and> k \<noteq> ''ref''
               \<longrightarrow> map_of (ctx_data doc set_data imported) k = Some v)
         \<and> map_of (dict_update (items doc) (ctx_data doc set_data imported))
           = map_of (ctx_data doc set_data imported)
         \<and> (map_of set_data ''ref'' = None
               \<longrightarrow> map_of (ctx_data doc set_data imported) ''ref'' = map_of (items doc) ''ref'')"
proof -
  have d0: "map_of (dict_update [] (items doc)) = map_of (items doc)"
    using assms(1) by (simp add: wf_dict_def map_of_dict_update)
  have d1: "map_of (dict_update (dict_update [] (items doc)) set_data)
              = map_of (items doc) ++ map_of set_data"
    using assms(2) by (simp add: wf_dict_def map_of_dict_update d0)
  have s: "distinct (map fst (strip_ref imported))"
    using assms(3) by (simp add: wf_dict_def distinct_strip_ref)
  have m: "map_of (ctx_data doc set_data imported)
           = map_of (items doc) ++ map_of set_data ++ (map_of imported)(''ref'' := None)"
    unfolding ctx_data_def by (simp add: map_of_dict_update [OF s] d1 map_of_strip_ref)
  have r: "map_of (ctx_data doc set_data imported) ''ref''
           = (map_of (items doc) ++ map_of set_data) ''ref''"
    unfolding m by (simp add: map_add_def)
  have i: "\<forall>k v. map_of imported k = Some v \<and> k \<noteq> ''ref''
               \<longrightarrow> map_of (ctx_data doc set_data imported) k = Some v"
    unfolding m by (simp add: map_add_def)
  have c: "distinct (map fst (ctx_data doc set_data imported))"
    unfolding ctx_data_def by (intro distinct_dict_update) simp
  have "map_of (dict_update (items doc) (ctx_data doc set_data imported))
          = map_of (items doc) ++ map_of (ctx_data doc set_data imported)"
    by (rule map_of_dict_update [OF c])
  also have "\<dots> = map_of (ctx_data doc set_data imported)"
    unfolding m by (auto simp: map_add_def fun_eq_iff split: option.splits)
  finally have a: "map_of (dict_update (items doc) (ctx_data doc set_data imported))
           = map_of (ctx_data doc set_data imported)" .
  have o: "map_of set_data ''ref'' = None
               \<longrightarrow> map_of (ctx_data doc set_data imported) ''ref'' = map_of (items doc) ''ref''"
    unfolding r by (simp add: map_add_def)
  from m r i a o show ?thesis by blast
qed

theorem ctx_data_precedence_witness:
  "wf_dict (items unfoldered) \<and> wf_dict [(''tags'', PStr ''b'')] \<and> wf_dict [(''tags'', PStr ''c'')]
   \<and> map_of (ctx_data unfoldered [(''tags'', PStr ''b'')] [(''tags'', PStr ''c'')]) ''tags''
       = Some (PStr ''c'')
   \<and> wf_dict (items foldered) \<and> wf_dict [(''ref'', PStr ''X'')]
   \<and> map_of (ctx_data foldered [(''tags'', PStr ''b'')] [(''ref'', PStr ''X'')]) ''ref''
       = Some (PStr ''R'')
   \<and> map_of (ctx_data foldered [(''tags'', PStr ''b'')] [(''ref'', PStr ''X'')]) ''tags''
       = Some (PStr ''b'')"
proof -
  have w1: "wf_dict (items unfoldered)" by code_simp
  have w2: "wf_dict [(''tags'', PStr ''b'')]" by code_simp
  have w3: "wf_dict [(''tags'', PStr ''c'')]" by code_simp
  have w4: "wf_dict (items foldered)" by code_simp
  have w5: "wf_dict [(''ref'', PStr ''X'')]" by code_simp
  have i: "map_of [(''tags'', PStr ''c'')] ''tags'' = Some (PStr ''c'') \<and> ''tags'' \<noteq> ''ref''"
    by simp
  have a: "map_of (ctx_data unfoldered [(''tags'', PStr ''b'')] [(''tags'', PStr ''c'')]) ''tags''
       = Some (PStr ''c'')"
    using ctx_data_precedence [OF w1 w2 w3] i by blast
  have n: "map_of [(''tags'', PStr ''b'')] ''ref'' = None"
    by simp
  have b: "map_of (ctx_data foldered [(''tags'', PStr ''b'')] [(''ref'', PStr ''X'')]) ''ref''
       = map_of (items foldered) ''ref''"
    using ctx_data_precedence [OF w4 w2 w5] n by blast
  have b': "map_of (items foldered) ''ref'' = Some (PStr ''R'')"
    by (simp add: foldered_def)
  have c: "map_of (ctx_data foldered [(''tags'', PStr ''b'')] [(''ref'', PStr ''X'')]) ''tags''
       = Some (PStr ''b'')"
    by code_simp
  from w1 w2 w3 w4 w5 a b b' c show ?thesis by simp
qed

section \<open>Properties of sorting\<close>

lemma document_sort_key_reverse:
  "fst (document_sort_key ps pi sp ep k True d) = - fst (document_sort_key ps pi sp ep k False d)
   \<and> snd (document_sort_key ps pi sp ep k True d) = snd (document_sort_key ps pi sp ep k False d)"
  by (cases "sort_fields ps pi sp ep k d") (simp add: document_sort_key_def)

lemma reverse_key_le:
  assumes "document_sort_key ps pi sp ep k True b \<le> document_sort_key ps pi sp ep k True a"
  shows "fst (document_sort_key ps pi sp ep k False a) < fst (document_sort_key ps pi sp ep k False b)
         \<or> (fst (document_sort_key ps pi sp ep k False a) = fst (document_sort_key ps pi sp ep k False b)
            \<and> snd (document_sort_key ps pi sp ep k False b)
                \<le> snd (document_sort_key ps pi sp ep k False a))"
proof -
  obtain pa ra where a: "document_sort_key ps pi sp ep k False a = (pa, ra)"
    by (cases "document_sort_key ps pi sp ep k False a")
  obtain pb rb where b: "document_sort_key ps pi sp ep k False b = (pb, rb)"
    by (cases "document_sort_key ps pi sp ep k False b")
  have ta: "document_sort_key ps pi sp ep k True a = (- pa, ra)"
    using document_sort_key_reverse [of ps pi sp ep k a] a by (simp add: prod_eq_iff)
  have tb: "document_sort_key ps pi sp ep k True b = (- pb, rb)"
    using document_sort_key_reverse [of ps pi sp ep k b] b by (simp add: prod_eq_iff)
  from assms have "- pb < - pa \<or> (- pb \<le> - pa \<and> rb \<le> ra)"
    unfolding ta tb by (simp only: less_eq_prod_simp)
  then have "pa < pb \<or> (pa = pb \<and> rb \<le> ra)"
    by auto
  then show ?thesis by (simp add: a b)
qed

lemma reverse_key_eq:
  "(document_sort_key ps pi sp ep k False d = key)
     = (document_sort_key ps pi sp ep k True d = (- fst key, snd key))"
  using document_sort_key_reverse [of ps pi sp ep k d]
  by (cases key; cases "document_sort_key ps pi sp ep k False d";
      cases "document_sort_key ps pi sp ep k True d") auto

text \<open>
  Claim C1, as stated: with \<open>reverse\<close> the documents are ordered ascending by the key
  with the negated priority, which reverses the grouping by category and keeps the order
  within a category. On two documents with the years 1 and 2 and one without a year, that
  order puts the document without a year first and the years ascending; the code returns
  the years descending and the document without a year last.
\<close>

theorem sort_reverse_counterexample:
  "sort_docs str_of_text int_of_text (\<lambda>s f. None) (0::nat)
         [doc_year ''1'', doc_year ''2'', doc_untitled] ''year'' False
       = [doc_year ''1'', doc_year ''2'', doc_untitled]
   \<and> sort_docs str_of_text int_of_text (\<lambda>s f. None) (0::nat)
         [doc_year ''1'', doc_year ''2'', doc_untitled] ''year'' True
       = [doc_year ''2'', doc_year ''1'', doc_untitled]
   \<and> sort_as_specified str_of_text int_of_text (\<lambda>s f. None) (0::nat)
         [doc_year ''1'', doc_year ''2'', doc_untitled] ''year'' True
       = [doc_untitled, doc_year ''1'', doc_year ''2'']
   \<and> sort_docs str_of_text int_of_text (\<lambda>s f. None) (0::nat)
         [doc_year ''1'', doc_year ''2'', doc_untitled] ''year'' True
       \<noteq> sort_as_specified str_of_text int_of_text (\<lambda>s f. None) (0::nat)
         [doc_year ''1'', doc_year ''2'', doc_untitled] ''year'' True"
  by code_simp

text \<open>
  Claim C1, amended. With \<open>reverse\<close>, the key has its priority value negated and its
  date, integer and string components unchanged, and the sort is asked to reverse too. So
  the result holds the same documents, keeps the grouping by category of the plain sort
  (dates, integers, others, and documents without the key last), orders the documents of
  one category by descending date, integer and string, and leaves documents with equal
  keys in their input order.
\<close>

theorem sort_docs_reverse:
  fixes sp :: "string \<Rightarrow> string \<Rightarrow> ('dt::linorder) option"
  shows "fst (document_sort_key ps pi sp ep k True d) = - fst (document_sort_key ps pi sp ep k False d)
    \<and> snd (document_sort_key ps pi sp ep k True d) = snd (document_sort_key ps pi sp ep k False d)
    \<and> mset (sort_docs ps pi sp ep docs k True) = mset docs
    \<and> sorted_wrt
         (\<lambda>a b. fst (document_sort_key ps pi sp ep k False a)
                   < fst (document_sort_key ps pi sp ep k False b)
               \<or> (fst (document_sort_key ps pi sp ep k False a)
                     = fst (document_sort_key ps pi sp ep k False b)
                  \<and> snd (document_sort_key ps pi sp ep k False b)
                      \<le> snd (document_sort_key ps pi sp ep k False a)))
         (sort_docs ps pi sp ep docs k True)
    \<and> filter (\<lambda>x. document_sort_key ps pi sp ep k False x = key)
         (sort_docs ps pi sp ep docs k True)
       = filter (\<lambda>x. document_sort_key ps pi sp ep k False x = key) docs
    \<and> sort_docs str_of_text int_of_text (\<lambda>s f. None) (0::nat)
         [doc_year ''1'', doc_year ''2'', doc_untitled] ''year'' True
       = [doc_year ''2'', doc_year ''1'', doc_untitled]"
proof (intro conjI)
  show "fst (document_sort_key ps pi sp ep k True d) = - fst (document_sort_key ps pi sp ep k False d)"
    by (rule conjunct1 [OF document_sort_key_reverse])
next
  show "snd (document_sort_key ps pi sp ep k True d) = snd (document_sort_key ps pi sp ep k False d)"
    by (rule conjunct2 [OF document_sort_key_reverse])
next
  show "mset (sort_docs ps pi sp ep docs k True) = mset docs"
    by (simp add: sort_docs_def py_sorted_def)
next
  let ?kT = "document_sort_key ps pi sp ep k True"
  have "sorted (map ?kT (sort_key ?kT (rev docs)))"
    by (rule sorted_sort_key)
  then have "sorted_wrt (\<lambda>x y. ?kT x \<le> ?kT y) (sort_key ?kT (rev docs))"
    by (simp only: sorted_wrt_map)
  then have "sorted_wrt (\<lambda>x y. ?kT y \<le> ?kT x) (rev (sort_key ?kT (rev docs)))"
    by (simp only: sorted_wrt_rev)
  then have "sorted_wrt
         (\<lambda>a b. fst (document_sort_key ps pi sp ep k False a)
                   < fst (document_sort_key ps pi sp ep k False b)
               \<or> (fst (document_sort_key ps pi sp ep k False a)
                     = fst (document_sort_key ps pi sp ep k False b)
                  \<and> snd (document_sort_key ps pi sp ep k False b)
                      \<le> snd (document_sort_key ps pi sp ep k False a)))
         (rev (sort_key ?kT (rev docs)))"
    by (rule sorted_wrt_mono_rel [rotated]) (rule reverse_key_le)
  then show "sorted_wrt
         (\<lambda>a b. fst (document_sort_key ps pi sp ep k False a)
                   < fst (document_sort_key ps pi sp ep k False b)
               \<or> (fst (document_sort_key ps pi sp ep k False a)
                     = fst (document_sort_key ps pi sp ep k False b)
                  \<and> snd (document_sort_key ps pi sp ep k False b)
                      \<le> snd (document_sort_key ps pi sp ep k False a)))
         (sort_docs ps pi sp ep docs k True)"
    by (simp add: sort_docs_def py_sorted_def)
next
  let ?kT = "document_sort_key ps pi sp ep k True"
  let ?P = "\<lambda>x. ?kT x = (- fst key, snd key)"
  have "filter ?P (rev (sort_key ?kT (rev docs))) = rev (filter ?P (sort_key ?kT (rev docs)))"
    by (simp only: rev_filter)
  also have "\<dots> = rev (filter ?P (rev docs))"
    by (simp only: sort_key_stable)
  also have "\<dots> = filter ?P docs"
    by (simp only: rev_filter rev_rev_ident)
  finally show "filter (\<lambda>x. document_sort_key ps pi sp ep k False x = key)
         (sort_docs ps pi sp ep docs k True)
       = filter (\<lambda>x. document_sort_key ps pi sp ep k False x = key) docs"
    by (simp add: sort_docs_def py_sorted_def reverse_key_eq [of ps pi sp ep k _ key])
next
  show "sort_docs str_of_text int_of_text (\<lambda>s f. None) (0::nat)
         [doc_year ''1'', doc_year ''2'', doc_untitled] ''year'' True
       = [doc_year ''2'', doc_year ''1'', doc_untitled]"
    by code_simp
qed

theorem sort_docs_reverse_witness:
  "mset (sort_docs str_of_text int_of_text (\<lambda>s f. None) (0::nat)
           [doc_year ''1'', doc_year ''2'', doc_untitled] ''year'' True)
     = mset [doc_year ''1'', doc_year ''2'', doc_untitled]
   \<and> filter (\<lambda>x. document_sort_key str_of_text int_of_text (\<lambda>s f. None) (0::nat)
                    ''year'' False x = (1, 0, 2, ''2''))
         (sort_docs str_of_text int_of_text (\<lambda>s f. None) (0::nat)
            [doc_year ''1'', doc_year ''2'', doc_untitled] ''year'' True)
       = filter (\<lambda>x. document_sort_key str_of_text int_of_text (\<lambda>s f. None) (0::nat)
                    ''year'' False x = (1, 0, 2, ''2''))
           [doc_year ''1'', doc_year ''2'', doc_untitled]"
  using sort_docs_reverse [where ps = str_of_text and pi = int_of_text
      and sp = "\<lambda>s f. None :: nat option" and ep = 0 and k = "''year''"
      and docs = "[doc_year ''1'', doc_year ''2'', doc_untitled]"
      and key = "(1, 0, 2, ''2'')" and d = doc_untitled]
  by blast

end
